theory Spec2Isabelle
  imports Complex_Main
begin

section \<open>Safe-Signal: risk fusion, stress inference, gesture hold and the alert machine\<close>

text \<open>
  The JavaScript sources compute on IEEE doubles. The embedding computes on \<^typ>\<open>real\<close>:
  sums, products and comparisons are exact, so the theorems speak of the arithmetic the
  code writes down and not of its rounding. The one place where a double that is not a
  real number decides a claim (\<open>0 / 0\<close> in the feature extractor) is modelled with an
  explicit not-a-number value.
\<close>

subsection \<open>riskEngine.js\<close>

text \<open>
  \<^verbatim>\<open>calculateRisk(gestureScore, stressScore, motionScore)\<close>: the weighted sum with the
  weights 0.5, 0.3 and 0.2, then \<^verbatim>\<open>Math.min(Math.max(riskScore, 0), 1)\<close>.
\<close>

definition calculateRisk :: "real \<Rightarrow> real \<Rightarrow> real \<Rightarrow> real" where
  "calculateRisk gestureScore stressScore motionScore =
     (let riskScore = gestureScore * 0.5 + stressScore * 0.3 + motionScore * 0.2
      in min (max riskScore 0) 1)"

datatype risk_level = Safe | Moderate | Danger

definition getRiskLevel :: "real \<Rightarrow> risk_level" where
  "getRiskLevel riskScore =
     (if riskScore < 0.3 then Safe else if riskScore < 0.75 then Moderate else Danger)"

text \<open>
  The clamp of the specification, in its own words: a value below the lower bound becomes
  the lower bound, a value above the upper bound becomes the upper bound.
\<close>

definition clamp_spec :: "real \<Rightarrow> real \<Rightarrow> real \<Rightarrow> real" where
  "clamp_spec x lo hi = (if x < lo then lo else if hi < x then hi else x)"

subsection \<open>stressInference.js: the spike limiter\<close>

definition SPIKE_LIMIT :: real where
  "SPIKE_LIMIT = 0.15"

text \<open>
  \<^verbatim>\<open>_applySpikeLimiter(newScore)\<close> reads and writes the module variable
  \<^verbatim>\<open>previousStressScore\<close>. The model takes the variable as second argument and returns
  the pair of the returned score and the variable's new value.
\<close>

definition applySpikeLimiter :: "real \<Rightarrow> real \<Rightarrow> real \<times> real" where
  "applySpikeLimiter newScore previousStressScore =
     (let delta = newScore - previousStressScore;
          limited = (if delta > SPIKE_LIMIT then previousStressScore + SPIKE_LIMIT else newScore)
      in (limited, limited))"

subsection \<open>gesturePipeline.js\<close>

datatype js_error = TypeError

record landmark =
  lm_x :: real
  lm_y :: real
  lm_z :: real

definition FIST_THRESHOLD :: real where
  "FIST_THRESHOLD = 0.12"


definition FINGERTIP_INDICES :: "nat list" where
  "FINGERTIP_INDICES = [8, 12, 16, 20]"

definition PALM_INDICES :: "nat list" where
  "PALM_INDICES = [0, 5, 9, 13, 17]"

text \<open>
  \<^verbatim>\<open>_computeFistConfidence(landmarks)\<close>. Both loops of the source are folds over the index
  constants. Reading \<^verbatim>\<open>landmarks[idx].x\<close> at an index the array does not have raises a
  TypeError in JavaScript; the model returns it as an error value.
\<close>

definition computeFistConfidence :: "landmark list \<Rightarrow> js_error + real" where
  "computeFistConfidence landmarks =
     (if \<exists>idx \<in> set (PALM_INDICES @ FINGERTIP_INDICES). length landmarks \<le> idx
      then Inl TypeError
      else
        let px = foldl (\<lambda>acc idx. acc + lm_x (landmarks ! idx)) 0 PALM_INDICES
                   / real (length PALM_INDICES);
            py = foldl (\<lambda>acc idx. acc + lm_y (landmarks ! idx)) 0 PALM_INDICES
                   / real (length PALM_INDICES);
            curledCount = foldl (\<lambda>cnt tipIdx.
                let tip = landmarks ! tipIdx;
                    dist = sqrt ((lm_x tip - px)\<^sup>2 + (lm_y tip - py)\<^sup>2)
                in if dist < FIST_THRESHOLD then cnt + 1 else cnt) (0::nat) FINGERTIP_INDICES
        in Inr (real curledCount / real (length FINGERTIP_INDICES)))"

text \<open>
  The controller's fields that the hold logic reads or writes. \<open>hasHandLandmarker\<close> stands
  for \<^verbatim>\<open>this.handLandmarker\<close> being non-null; \<open>fistStartTime = None\<close> is \<^verbatim>\<open>null\<close>.
\<close>

record gesture_state =
  isInitialized :: bool
  hasHandLandmarker :: bool
  fistStartTime :: "real option"
  gestureScore :: real
  isFist :: bool
  confidence :: real
  lastLandmarks :: "landmark list option"








text \<open>
  Vocabulary of the statements about the hold. The palm centre and the curled fingertips
  are written out landmark by landmark, as the documentation of the landmark indices has
  them: the mean of landmarks 0, 5, 9, 13 and 17, and the tips 8, 12, 16 and 20.
\<close>

definition palm_center :: "landmark list \<Rightarrow> real \<times> real" where
  "palm_center lms =
     ((lm_x (lms ! 0) + lm_x (lms ! 5) + lm_x (lms ! 9) + lm_x (lms ! 13) + lm_x (lms ! 17)) / 5,
      (lm_y (lms ! 0) + lm_y (lms ! 5) + lm_y (lms ! 9) + lm_y (lms ! 13) + lm_y (lms ! 17)) / 5)"

definition tip_curled :: "landmark list \<Rightarrow> nat \<Rightarrow> bool" where
  "tip_curled lms i =
     (sqrt ((lm_x (lms ! i) - fst (palm_center lms))\<^sup>2
          + (lm_y (lms ! i) - snd (palm_center lms))\<^sup>2) < 0.12)"

definition curled_tips :: "landmark list \<Rightarrow> nat" where
  "curled_tips lms = length (filter (tip_curled lms) [8, 12, 16, 20])"






text \<open>Concrete hands and frames for the examples: a closed fist and an open hand.\<close>

definition fist_hand :: "landmark list" where
  "fist_hand = replicate 21 \<lparr>lm_x = 1/2, lm_y = 1/2, lm_z = 0\<rparr>"





subsection \<open>featureExtractor.js\<close>

text \<open>
  A JavaScript number that may be not-a-number. Dividing zero by zero gives NaN in IEEE
  arithmetic, and \<^verbatim>\<open>Math.sqrt(NaN)\<close> is NaN; in HOL \<open>0 / 0 = 0\<close>, so the two functions
  that divide by the frame length return this type.
\<close>

datatype jsnum = Num real | NaN

text \<open>
  \<^verbatim>\<open>extractRMS(frame)\<close>: the loop adds the squares; the sum of an empty frame is 0 and
  \<^verbatim>\<open>sumSquares / frame.length\<close> is then \<open>0 / 0\<close>.
\<close>

definition extractRMS :: "real list \<Rightarrow> jsnum" where
  "extractRMS frame =
     (let sumSquares = foldl (\<lambda>acc v. acc + v * v) 0 frame
      in if length frame = 0 then NaN
         else Num (sqrt (sumSquares / real (length frame))))"

text \<open>\<^verbatim>\<open>extractZCR(frame)\<close>: the loop runs over \<open>i = 1, ..., frame.length - 1\<close>.\<close>

definition extractZCR :: "real list \<Rightarrow> jsnum" where
  "extractZCR frame =
     (let zeroCrossings = foldl (\<lambda>cnt i.
            if (frame ! i \<ge> 0 \<and> frame ! (i - 1) < 0) \<or> (frame ! i < 0 \<and> frame ! (i - 1) \<ge> 0)
            then cnt + 1 else cnt) (0::nat) [1..<length frame]
      in if length frame = 0 then NaN
         else Num (real zeroCrossings / real (length frame)))"

text \<open>
  \<^verbatim>\<open>extractPitch(frame, sampleRate)\<close>: the outer loop runs over the lags from
  \<open>minLag\<close> to \<open>maxLag\<close> for as long as \<open>lag < frame.length / 2\<close>.
\<close>

definition extractPitch :: "real list \<Rightarrow> nat \<Rightarrow> real" where
  "extractPitch frame sampleRate =
     (let minPitch = 80; maxPitch = 400;
          minLag = sampleRate div maxPitch;
          maxLag = sampleRate div minPitch;
          lags = takeWhile (\<lambda>lag. 2 * lag < length frame) [minLag..<Suc maxLag];
          (maxCorrelation, bestLag) = foldl (\<lambda>(maxC, best) lag.
              let correlation = foldl (\<lambda>acc i. acc + frame ! i * frame ! (i + lag)) 0
                                  [0..<length frame - lag]
              in if correlation > maxC then (correlation, lag) else (maxC, best))
            (0, 0) lags
      in if bestLag = 0 then 0
         else let pitch = real sampleRate / real bestLag
              in if pitch \<ge> real minPitch \<and> pitch \<le> real maxPitch then pitch else 0)"

text \<open>
  \<^verbatim>\<open>extractMFCC\<close> and \<^verbatim>\<open>extractSpectralCentroid\<close> call the Meyda library inside
  \<^verbatim>\<open>try\<close>. The library is not part of the repository: its outcome is an argument, and
  \<open>None\<close> stands for an exception or for a missing (falsy) value, which both functions
  replace by zeros.
\<close>

definition extractMFCC :: "real list option \<Rightarrow> nat \<Rightarrow> real list" where
  "extractMFCC meyda_mfcc numCoefficients =
     (case meyda_mfcc of Some coeffs \<Rightarrow> coeffs | None \<Rightarrow> replicate numCoefficients 0)"

definition extractSpectralCentroid :: "real option \<Rightarrow> real" where
  "extractSpectralCentroid meyda_centroid =
     (case meyda_centroid of Some c \<Rightarrow> c | None \<Rightarrow> 0)"

record featureSet =
  fs_mfcc :: "real list"
  fs_pitch :: real
  fs_rms :: jsnum
  fs_zcr :: jsnum
  fs_spectralCentroid :: real

definition extractAllFeatures ::
  "real list \<Rightarrow> nat \<Rightarrow> nat \<Rightarrow> real list option \<Rightarrow> real option \<Rightarrow> featureSet" where
  "extractAllFeatures frame sampleRate numMFCC meyda_mfcc meyda_centroid =
     \<lparr>fs_mfcc = extractMFCC meyda_mfcc numMFCC,
      fs_pitch = extractPitch frame sampleRate,
      fs_rms = extractRMS frame,
      fs_zcr = extractZCR frame,
      fs_spectralCentroid = extractSpectralCentroid meyda_centroid\<rparr>"

text \<open>The all-zero feature set of the failure policy.\<close>

definition zero_features :: "nat \<Rightarrow> featureSet" where
  "zero_features numMFCC =
     \<lparr>fs_mfcc = replicate numMFCC 0, fs_pitch = 0, fs_rms = Num 0, fs_zcr = Num 0,
      fs_spectralCentroid = 0\<rparr>"

record stats =
  st_mean :: real
  st_std :: real
  st_variance :: real
  st_min :: real
  st_max :: real

definition calculateStats :: "real list \<Rightarrow> stats" where
  "calculateStats vals =
     (case vals of
        [] \<Rightarrow> \<lparr>st_mean = 0, st_std = 0, st_variance = 0, st_min = 0, st_max = 0\<rparr>
      | v # vs \<Rightarrow>
          let mean = foldl (\<lambda>a b. a + b) 0 vals / real (length vals);
              variance = foldl (\<lambda>a b. a + (b - mean)\<^sup>2) 0 vals / real (length vals);
              std = sqrt variance
          in \<lparr>st_mean = mean, st_std = std, st_variance = variance,
              st_min = fold min vs v, st_max = fold max vs v\<rparr>)"

subsection \<open>stressInference.js\<close>

text \<open>
  The feature matrix of \<^verbatim>\<open>buildFeatureMatrix\<close> and the calibration baseline. The entries
  are numbers, and the rows of the MFCC matrix have one common, non-zero length (the
  extractor returns 40 coefficients per frame); on other matrices JavaScript would compute
  with \<^verbatim>\<open>undefined\<close> and NaN, which the model does not follow.
\<close>

record featureMatrix =
  fm_mfcc :: "real list list"
  fm_pitch :: "real list"
  fm_rms :: "real list"
  fm_zcr :: "real list"
  fm_spectralCentroid :: "real list"
  fm_timestamps :: "real list"

record baseline_t =
  bl_pitch :: real
  bl_rms :: real
  bl_centroid :: real

definition VAD_MIN_RMS :: real where
  "VAD_MIN_RMS = 0.01"

definition NOISE_HIGH_THRESHOLD :: real where
  "NOISE_HIGH_THRESHOLD = 0.05"

definition calculateMFCCTemporalVariance :: "real list list \<Rightarrow> real" where
  "calculateMFCCTemporalVariance mfccMatrix =
     (if length mfccMatrix < 2 then 0
      else
        let numCoeffs = length (mfccMatrix ! 0);
            totalDifference = foldl (\<lambda>tot t.
                foldl (\<lambda>tot' c.
                    let diff = mfccMatrix ! t ! c - mfccMatrix ! (t - 1) ! c
                    in tot' + diff * diff) tot [0..<numCoeffs])
              0 [1..<length mfccMatrix]
        in sqrt (totalDifference / real (length mfccMatrix - 1) / real numCoeffs))"

text \<open>
  \<^verbatim>\<open>computeStressScore\<close> is embedded in three parts that follow its numbered sections:
  the five feature scores (sections 2 and 3 and the MFCC and ZCR scores), the five weights
  (section 4), and the gates, the weighted combination, the clamp and the spike limiter
  (sections 1, 5 and 6).
\<close>

record scores =
  pitchScore :: real
  rmsScore :: real
  mfccScore :: real
  centroidScore :: real
  zcrScore :: real

definition featureScores :: "featureMatrix \<Rightarrow> baseline_t option \<Rightarrow> scores" where
  "featureScores fm bl =
     (let rmsStats = calculateStats (fm_rms fm);
          voicedPitch = filter (\<lambda>p. p > 0) (fm_pitch fm);
          pitchStats = calculateStats (if length voicedPitch > 0 then voicedPitch else [0]);
          zcrStats = calculateStats (fm_zcr fm);
          centroidStats = calculateStats (fm_spectralCentroid fm);
          mfccVariance = calculateMFCCTemporalVariance (fm_mfcc fm);
          (pitchS, rmsS, centroidS) =
            (case bl of
               Some b \<Rightarrow>
                 if bl_pitch b > 0 \<and> bl_rms b > 0 \<and> bl_centroid b > 0 then
                   let pitchDev = \<bar>st_mean pitchStats - bl_pitch b\<bar> / max (bl_pitch b) 1;
                       rmsDev = \<bar>st_mean rmsStats - bl_rms b\<bar> / max (bl_rms b) 0.001;
                       centroidDev = \<bar>st_mean centroidStats - bl_centroid b\<bar>
                                       / max (bl_centroid b) 1
                   in (min pitchDev 1, min rmsDev 1, min centroidDev 1)
                 else (min (st_std pitchStats / 50) 1, min (st_variance rmsStats / 0.05) 1,
                       min (st_mean centroidStats / 3000) 1)
             | None \<Rightarrow>
                 (min (st_std pitchStats / 50) 1, min (st_variance rmsStats / 0.05) 1,
                  min (st_mean centroidStats / 3000) 1))
      in \<lparr>pitchScore = pitchS, rmsScore = rmsS,
          mfccScore = min (mfccVariance / 10) 1,
          centroidScore = centroidS,
          zcrScore = min (st_variance zcrStats / 0.01) 1\<rparr>)"

record weights =
  wPitch :: real
  wRMS :: real
  wMFCC :: real
  wCentroid :: real
  wZCR :: real

definition noiseWeights :: "real \<Rightarrow> weights" where
  "noiseWeights noiseLevel =
     (let w = \<lparr>wPitch = 0.30, wRMS = 0.25, wMFCC = 0.20, wCentroid = 0.15, wZCR = 0.10\<rparr>
      in if noiseLevel > NOISE_HIGH_THRESHOLD then
           let rmsReduction = wRMS w * 0.20
           in w\<lparr>wRMS := wRMS w - rmsReduction, wPitch := wPitch w + rmsReduction\<rparr>
         else w)"

definition weightedScore :: "scores \<Rightarrow> weights \<Rightarrow> real" where
  "weightedScore sc w =
     pitchScore sc * wPitch w + rmsScore sc * wRMS w + mfccScore sc * wMFCC w
       + centroidScore sc * wCentroid w + zcrScore sc * wZCR w"

text \<open>
  The first argument is \<open>None\<close> for a missing feature matrix; the last one is the module
  variable \<^verbatim>\<open>previousStressScore\<close>, whose new value is the second component of the result.
\<close>

definition computeStressScore ::
  "featureMatrix option \<Rightarrow> baseline_t option \<Rightarrow> real \<Rightarrow> real \<Rightarrow> real \<times> real" where
  "computeStressScore featureMat bl noiseLevel previousStressScore =
     (case featureMat of
        None \<Rightarrow> applySpikeLimiter 0 previousStressScore
      | Some fm \<Rightarrow>
          if length (fm_pitch fm) = 0 then applySpikeLimiter 0 previousStressScore
          else if st_mean (calculateStats (fm_rms fm)) < VAD_MIN_RMS
          then applySpikeLimiter 0 previousStressScore
          else
            let rawScore = weightedScore (featureScores fm bl) (noiseWeights noiseLevel);
                clampedScore = max 0 (min 1 rawScore)
            in applySpikeLimiter clampedScore previousStressScore)"

definition resetStressState :: real where
  "resetStressState = 0"

definition calculateAudioRiskWeight :: "real \<Rightarrow> real" where
  "calculateAudioRiskWeight stressScore = 0.3 * stressScore"

text \<open>
  The input of \<^verbatim>\<open>computeStressScore\<close> is gated out when the matrix is missing or has no
  frame, or when its mean RMS is below the voice-presence threshold.
\<close>

definition gated_out :: "featureMatrix option \<Rightarrow> bool" where
  "gated_out featureMat =
     (case featureMat of
        None \<Rightarrow> True
      | Some fm \<Rightarrow> fm_pitch fm = [] \<or> st_mean (calculateStats (fm_rms fm)) < 0.01)"

text \<open>
  The module variable after a sequence of calls, each with its matrix, baseline and noise
  floor, starting from the value that \<^verbatim>\<open>resetStressState\<close> and the module's
  initialisation give it.
\<close>

definition stress_calls ::
  "(featureMatrix option \<times> baseline_t option \<times> real) list \<Rightarrow> real \<Rightarrow> real" where
  "stress_calls calls prev =
     fold (\<lambda>(featureMat, bl, noiseLevel) p. snd (computeStressScore featureMat bl noiseLevel p))
       calls prev"

text \<open>A one-frame feature matrix and a baseline for the examples.\<close>

definition loud_frame :: featureMatrix where
  "loud_frame = \<lparr>fm_mfcc = [[0]], fm_pitch = [200], fm_rms = [1/4], fm_zcr = [1/10],
     fm_spectralCentroid = [1000], fm_timestamps = [0]\<rparr>"

definition calm_baseline :: baseline_t where
  "calm_baseline = \<lparr>bl_pitch = 100, bl_rms = 1/4, bl_centroid = 1000\<rparr>"

text \<open>
  Two frames on which, against the baseline above, all five feature scores are positive:
  1 for the pitch, 1/2 for the RMS, 1/10 for the MFCC variance, 1/2 for the centroid and
  1 for the ZCR variance.
\<close>

definition tense_frames :: featureMatrix where
  "tense_frames = \<lparr>fm_mfcc = [[0], [1]], fm_pitch = [200, 200], fm_rms = [3/8, 3/8],
     fm_zcr = [0, 1/5], fm_spectralCentroid = [1500, 1500], fm_timestamps = [0, 1/40]\<rparr>"

subsection \<open>smoothing.js\<close>

record smoother =
  windowSeconds :: real
  samples :: "(real \<times> real) list"
  smoothedValue :: real
  alpha :: real

definition createSmoother :: "real \<Rightarrow> smoother" where
  "createSmoother ws = \<lparr>windowSeconds = ws, samples = [], smoothedValue = 0, alpha = 0.3\<rparr>"

text \<open>\<^verbatim>\<open>addSample(value, timestamp)\<close>; a sample is the pair of its value and its timestamp.\<close>

definition addSample :: "real \<Rightarrow> real \<Rightarrow> smoother \<Rightarrow> smoother" where
  "addSample v timestamp sm =
     (let pushed = samples sm @ [(v, timestamp)];
          cutoffTime = timestamp - windowSeconds sm * 1000;
          kept = filter (\<lambda>(sv, st). st > cutoffTime) pushed
      in sm\<lparr>samples := kept,
             smoothedValue := (if length kept = 1 then v
                               else alpha sm * v + (1 - alpha sm) * smoothedValue sm)\<rparr>)"

definition smoother_reset :: "smoother \<Rightarrow> smoother" where
  "smoother_reset sm = sm\<lparr>samples := [], smoothedValue := 0\<rparr>"

subsection \<open>audioPipeline.js\<close>

definition CALIBRATION_DURATION_MS :: real where
  "CALIBRATION_DURATION_MS = 5000"

definition MAX_NOISE_SAMPLES :: nat where
  "MAX_NOISE_SAMPLES = 20"

text \<open>
  The controller, together with the two objects it owns through the modules it imports:
  the spike limiter's variable \<^verbatim>\<open>previousStressScore\<close> and the temporal smoother.
  \<open>hasAnalyser\<close> and \<open>hasCallback\<close> stand for \<^verbatim>\<open>this.analyser\<close> and
  \<^verbatim>\<open>this.onStressUpdate\<close> being set.
\<close>

record pipeline =
  isRunning :: bool
  hasAnalyser :: bool
  hasCallback :: bool
  currentStressScore :: real
  mfccHistory :: "real list list"
  maxMFCCHistory :: nat
  isCalibrating :: bool
  calibrationStartTime :: "real option"
  calibrationSamples :: "baseline_t list"
  baseline :: "baseline_t option"
  noiseSamples :: "real list"
  noiseFloor :: real
  spikeState :: real
  smootherState :: smoother

text \<open>The object handed to the \<^verbatim>\<open>onStressUpdate\<close> callback (its numeric and calibration fields).\<close>

record stress_update =
  upd_stressScore :: real
  upd_audioRiskWeight :: real
  upd_isCalibrating :: bool
  upd_baseline :: "baseline_t option"

text \<open>
  What one call of \<^verbatim>\<open>processAudioFrame\<close> obtains from the clock, the analyser, the audio
  processor and the feature extractor: \<^verbatim>\<open>Date.now()\<close>, the noise-reduced buffer (its length
  is the analyser's FFT size, so it is not empty), the verdict of the voice activity
  detection, the length of the rolling window, and the feature matrix built from the
  window's frames.
\<close>

record audio_input =
  ai_now :: real
  ai_cleanedBuffer :: "real list"
  ai_hasVoice :: bool
  ai_windowLength :: nat
  ai_featureMatrix :: featureMatrix

definition computeRMS :: "real list \<Rightarrow> real" where
  "computeRMS buffer =
     sqrt (foldl (\<lambda>acc v. acc + v * v) 0 buffer / real (length buffer))"

definition computeBaseline :: "baseline_t list \<Rightarrow> baseline_t" where
  "computeBaseline smpls =
     (if length smpls = 0 then \<lparr>bl_pitch = 0, bl_rms = 0, bl_centroid = 0\<rparr>
      else
        let n = real (length smpls)
        in \<lparr>bl_pitch = foldl (\<lambda>acc s. acc + bl_pitch s) 0 smpls / n,
            bl_rms = foldl (\<lambda>acc s. acc + bl_rms s) 0 smpls / n,
            bl_centroid = foldl (\<lambda>acc s. acc + bl_centroid s) 0 smpls / n\<rparr>)"

text \<open>
  \<^verbatim>\<open>_emitUpdate(score)\<close> and \<^verbatim>\<open>updateStressScore(score)\<close>. The first component of a
  result is the update passed to the callback, \<open>None\<close> when nothing is emitted.
\<close>

definition emitUpdate :: "real \<Rightarrow> pipeline \<Rightarrow> stress_update option" where
  "emitUpdate score s =
     (if hasCallback s
      then Some \<lparr>upd_stressScore = score, upd_audioRiskWeight = calculateAudioRiskWeight score,
                 upd_isCalibrating = isCalibrating s, upd_baseline = baseline s\<rparr>
      else None)"

definition updateStressScore :: "real \<Rightarrow> pipeline \<Rightarrow> stress_update option \<times> pipeline" where
  "updateStressScore score s =
     (let s1 = s\<lparr>currentStressScore := score\<rparr> in (emitUpdate score s1, s1))"

text \<open>
  \<^verbatim>\<open>processAudioFrame()\<close>, branch by branch. \<^verbatim>\<open>Date.now() - this.calibrationStartTime\<close>
  reads a \<^verbatim>\<open>null\<close> start time as 0.
\<close>

definition processAudioFrame :: "audio_input \<Rightarrow> pipeline \<Rightarrow> stress_update option \<times> pipeline" where
  "processAudioFrame inp s =
     (if \<not> isRunning s \<or> \<not> hasAnalyser s then (None, s)
      else if \<not> ai_hasVoice inp then
        let silentRMS = computeRMS (ai_cleanedBuffer inp);
            pushed = noiseSamples s @ [silentRMS];
            kept = (if length pushed > MAX_NOISE_SAMPLES then tl pushed else pushed);
            s1 = s\<lparr>noiseSamples := kept,
                   noiseFloor := foldl (\<lambda>a b. a + b) 0 kept / real (length kept)\<rparr>
        in updateStressScore 0 s1
      else if ai_windowLength inp < 1000 then (None, s)
      else
        let fm = ai_featureMatrix inp;
            hist = mfccHistory s @ fm_mfcc fm;
            s1 = s\<lparr>mfccHistory := (if length hist > maxMFCCHistory s
                                     then drop (length hist - maxMFCCHistory s) hist
                                     else hist)\<rparr>;
            elapsed = ai_now inp - (case calibrationStartTime s1 of None \<Rightarrow> 0 | Some t0 \<Rightarrow> t0)
        in if isCalibrating s1 then
             let voicedPitch = filter (\<lambda>p. p > 0) (fm_pitch fm);
                 pitchStats = calculateStats (if length voicedPitch > 0 then voicedPitch else [0]);
                 rmsStats = calculateStats (fm_rms fm);
                 centroidStats = calculateStats (fm_spectralCentroid fm);
                 s2 = s1\<lparr>calibrationSamples := calibrationSamples s1 @
                           [\<lparr>bl_pitch = st_mean pitchStats, bl_rms = st_mean rmsStats,
                             bl_centroid = st_mean centroidStats\<rparr>]\<rparr>;
                 s3 = (if elapsed \<ge> CALIBRATION_DURATION_MS
                       then s2\<lparr>baseline := Some (computeBaseline (calibrationSamples s2)),
                               isCalibrating := False\<rparr>
                       else s2)
             in updateStressScore 0 s3
           else
             let (rawStressScore, prev') =
                   computeStressScore (Some fm) (baseline s1) (noiseFloor s1) (spikeState s1);
                 sm = addSample rawStressScore (ai_now inp) (smootherState s1);
                 smoothedScore = smoothedValue sm
             in updateStressScore smoothedScore (s1\<lparr>spikeState := prev', smootherState := sm\<rparr>))"

text \<open>
  \<^verbatim>\<open>start(onStressUpdate)\<close> once the audio capture is initialised, at clock value \<open>t\<close>;
  \<open>cb\<close> tells whether a callback was passed. Then \<^verbatim>\<open>stop()\<close>.
\<close>

definition pipeline_start :: "bool \<Rightarrow> real \<Rightarrow> pipeline \<Rightarrow> stress_update option \<times> pipeline" where
  "pipeline_start cb t s =
     (if isRunning s then (None, s)
      else
        let s1 = s\<lparr>hasAnalyser := True, hasCallback := cb,
                   isRunning := True, isCalibrating := True, calibrationStartTime := Some t,
                   calibrationSamples := [], baseline := None\<rparr>
        in (emitUpdate 0 s1, s1))"

definition pipeline_stop :: "pipeline \<Rightarrow> pipeline" where
  "pipeline_stop s =
     (if \<not> isRunning s then s
      else s\<lparr>isRunning := False, smootherState := smoother_reset (smootherState s),
             mfccHistory := [], currentStressScore := 0, isCalibrating := False,
             calibrationStartTime := None, calibrationSamples := [], baseline := None,
             noiseSamples := [], noiseFloor := 0, spikeState := resetStressState\<rparr>)"

definition new_pipeline :: pipeline where
  "new_pipeline = \<lparr>isRunning = False, hasAnalyser = False, hasCallback = False,
     currentStressScore = 0, mfccHistory = [], maxMFCCHistory = 80, isCalibrating = False,
     calibrationStartTime = None, calibrationSamples = [], baseline = None,
     noiseSamples = [], noiseFloor = 0, spikeState = 0, smootherState = createSmoother 5\<rparr>"

text \<open>A voiced input with a full window, for the examples.\<close>

definition voiced_input :: "real \<Rightarrow> audio_input" where
  "voiced_input t = \<lparr>ai_now = t, ai_cleanedBuffer = [1/2, -1/2], ai_hasVoice = True,
     ai_windowLength = 24000, ai_featureMatrix = loud_frame\<rparr>"

subsection \<open>geo.js and the emergency record of riskEngine.js\<close>

record location =
  lat :: real
  lng :: real

definition getMockLocation :: location where
  "getMockLocation = \<lparr>lat = 40.7128, lng = -74.006\<rparr>"

record contact =
  contact_name :: string
  contact_phone :: string

record emergencyData =
  ed_timestamp :: real
  ed_location :: location
  ed_contacts :: "contact list"

text \<open>
  \<^verbatim>\<open>triggerEmergency(contacts, location)\<close> builds the emergency record, with the clock value
  as timestamp, writes it to local storage and returns it. The write can fail (a full or
  disabled store); the exception then leaves the function before it returns.
\<close>

datatype storage_error = SetItemFailed

definition triggerEmergency ::
  "contact list \<Rightarrow> location \<Rightarrow> real \<Rightarrow> bool \<Rightarrow> storage_error + emergencyData" where
  "triggerEmergency contacts loc t setItem_ok =
     (let emergencyData = \<lparr>ed_timestamp = t, ed_location = loc, ed_contacts = contacts\<rparr>
      in if setItem_ok then Inr emergencyData else Inl SetItemFailed)"

subsection \<open>The Dashboard component: sustain timer, countdown, cancel and trigger\<close>

text \<open>
  The repository holds the component twice, without and with the audio and gesture
  pipelines; \<^verbatim>\<open>startCountdown\<close>, \<^verbatim>\<open>cancelAlert\<close>, \<^verbatim>\<open>handleEmergency\<close>,
  \<^verbatim>\<open>handleManualPanic\<close> and the threshold test of the detection loop are the same text in
  both.
\<close>

text \<open>
  What \<^verbatim>\<open>handleEmergency\<close> reads from outside the component. When it is called: the
  local-storage entry \<^verbatim>\<open>emergencyContacts\<close> (absent, a JSON contact list, or text that
  \<^verbatim>\<open>JSON.parse\<close> rejects). When the promise of \<^verbatim>\<open>getCurrentLocation()\<close> settles: its
  outcome (\<open>None\<close> when it is rejected), the clock, and whether the write of the record to
  local storage succeeds. A lookup that never settles is a call that stays pending.
\<close>

datatype stored_contacts = Absent | Json "contact list" | Malformed

record settle_env =
  se_location :: "location option"
  se_time :: real
  se_setItem_ok :: bool

text \<open>
  The component's state, its three refs, and the browser's timers. A timer handle is a
  positive number taken from one counter, so no two timers share a handle.
  \<open>pendingTimeouts\<close> are the handles of the \<^verbatim>\<open>setTimeout\<close> callbacks that have not run
  and have not been cleared, \<open>countdownIntervals\<close> the handles of the intervals set by
  \<^verbatim>\<open>startCountdown\<close> that have not been cleared, and \<open>detectionRunning\<close> tells whether
  the detection loop's interval is live. \<open>pendingLookups\<close> are the calls of
  \<^verbatim>\<open>handleEmergency\<close> that wait at \<^verbatim>\<open>await getCurrentLocation()\<close>, oldest first, each
  with the contacts it parsed. \<open>emergencies\<close> lists the records that \<^verbatim>\<open>triggerEmergency\<close>
  stored, oldest first, and \<open>navigated\<close> records \<^verbatim>\<open>navigate('/emergency')\<close>, which
  unmounts the component.
\<close>

record dashboard =
  isProtectionOn :: bool
  riskScore :: real
  riskLevel :: risk_level
  showPreAlert :: bool
  countdown :: int
  detectionIntervalRef :: "nat option"
  detectionRunning :: bool
  highRiskTimerRef :: "nat option"
  countdownIntervalRef :: "nat option"
  pendingTimeouts :: "nat list"
  countdownIntervals :: "nat list"
  nextHandle :: nat
  pendingLookups :: "contact list list"
  emergencies :: "emergencyData list"
  navigated :: bool

definition initial_dashboard :: dashboard where
  "initial_dashboard = \<lparr>isProtectionOn = False, riskScore = 0, riskLevel = Safe,
     showPreAlert = False, countdown = 5, detectionIntervalRef = None,
     detectionRunning = False, highRiskTimerRef = None, countdownIntervalRef = None,
     pendingTimeouts = [], countdownIntervals = [], nextHandle = 1, pendingLookups = [],
     emergencies = [], navigated = False\<rparr>"

definition clearTimeout :: "nat option \<Rightarrow> dashboard \<Rightarrow> dashboard" where
  "clearTimeout ref s =
     (case ref of None \<Rightarrow> s | Some h \<Rightarrow> s\<lparr>pendingTimeouts := removeAll h (pendingTimeouts s)\<rparr>)"

text \<open>
  \<^verbatim>\<open>clearInterval\<close> on the countdown's ref and on the detection loop's ref. The guard
  \<^verbatim>\<open>if (ref.current)\<close> of the source is the case distinction on the ref.
\<close>

definition clearInterval :: "nat option \<Rightarrow> dashboard \<Rightarrow> dashboard" where
  "clearInterval ref s =
     (case ref of
        None \<Rightarrow> s
      | Some h \<Rightarrow> s\<lparr>countdownIntervals := removeAll h (countdownIntervals s)\<rparr>)"

definition clearDetection :: "dashboard \<Rightarrow> dashboard" where
  "clearDetection s =
     (case detectionIntervalRef s of None \<Rightarrow> s | Some h \<Rightarrow> s\<lparr>detectionRunning := False\<rparr>)"

text \<open>
  \<^verbatim>\<open>handleEmergency()\<close> is an async function, embedded in the two parts that run as one
  piece each. The first part runs when the function is called: it parses the contacts
  (inside the outer \<^verbatim>\<open>try\<close>, whose handler only logs) and starts the location lookup.
  The second part runs when the lookup of the pending call number \<open>k\<close> settles: the inner
  \<^verbatim>\<open>catch\<close> replaces a rejected lookup by the mock location, \<^verbatim>\<open>triggerEmergency\<close> stores
  the record, and \<^verbatim>\<open>navigate('/emergency')\<close> unmounts the component, whose effect cleanup
  clears the detection loop and the sustain timer. An exception of \<^verbatim>\<open>triggerEmergency\<close>
  goes to the outer handler, before \<^verbatim>\<open>navigate\<close>.
\<close>

definition handleEmergency :: "stored_contacts \<Rightarrow> dashboard \<Rightarrow> dashboard" where
  "handleEmergency stored s =
     (case stored of
        Malformed \<Rightarrow> s
      | Absent \<Rightarrow> s\<lparr>pendingLookups := pendingLookups s @ [[]]\<rparr>
      | Json contacts \<Rightarrow> s\<lparr>pendingLookups := pendingLookups s @ [contacts]\<rparr>)"

definition unmountDashboard :: "dashboard \<Rightarrow> dashboard" where
  "unmountDashboard s = (clearTimeout (highRiskTimerRef s) (clearDetection s))\<lparr>navigated := True\<rparr>"

definition handleEmergency_resumed :: "nat \<Rightarrow> settle_env \<Rightarrow> dashboard \<Rightarrow> dashboard" where
  "handleEmergency_resumed k env s =
     (let contacts = pendingLookups s ! k;
          s1 = s\<lparr>pendingLookups := take k (pendingLookups s) @ drop (Suc k) (pendingLookups s)\<rparr>;
          loc = (case se_location env of Some l \<Rightarrow> l | None \<Rightarrow> getMockLocation)
      in case triggerEmergency contacts loc (se_time env) (se_setItem_ok env) of
           Inl e \<Rightarrow> s1
         | Inr emergencyData \<Rightarrow>
             unmountDashboard (s1\<lparr>emergencies := emergencies s1 @ [emergencyData]\<rparr>))"

definition startCountdown :: "dashboard \<Rightarrow> dashboard" where
  "startCountdown s =
     s\<lparr>countdown := 5,
        countdownIntervalRef := Some (nextHandle s),
        countdownIntervals := countdownIntervals s @ [nextHandle s],
        nextHandle := Suc (nextHandle s)\<rparr>"

text \<open>
  One run of the countdown interval's callback: the state updater, and with it the call
  of \<^verbatim>\<open>handleEmergency\<close> up to its first \<^verbatim>\<open>await\<close>. The argument is the stored contact
  entry at that moment.
\<close>

definition countdownTick :: "stored_contacts \<Rightarrow> dashboard \<Rightarrow> dashboard" where
  "countdownTick stored s =
     (if countdown s \<le> 1
      then (handleEmergency stored (clearInterval (countdownIntervalRef s) s))\<lparr>countdown := 0\<rparr>
      else s\<lparr>countdown := countdown s - 1\<rparr>)"

definition cancelAlert :: "dashboard \<Rightarrow> dashboard" where
  "cancelAlert s =
     (let s1 = s\<lparr>showPreAlert := False, countdown := 5\<rparr>;
          s2 = clearInterval (countdownIntervalRef s1) s1;
          s3 = (case highRiskTimerRef s2 of
                  None \<Rightarrow> s2
                | Some h \<Rightarrow> (clearTimeout (Some h) s2)\<lparr>highRiskTimerRef := None\<rparr>)
      in s3)"

definition handleManualPanic :: "dashboard \<Rightarrow> dashboard" where
  "handleManualPanic s = startCountdown (s\<lparr>showPreAlert := True\<rparr>)"

text \<open>The callback of the five-second timer that the detection loop sets.\<close>

definition highRiskTimeout :: "dashboard \<Rightarrow> dashboard" where
  "highRiskTimeout s = startCountdown (s\<lparr>showPreAlert := True\<rparr>)"

text \<open>
  One run of the detection loop's callback. The arguments are the gesture, stress and
  motion scores that the callback reads: the results of \<^verbatim>\<open>detectGesture()\<close>,
  \<^verbatim>\<open>detectStress()\<close> and \<^verbatim>\<open>detectMotion()\<close>, or, in the component with the audio and
  gesture pipelines, the gesture score of the gesture pipeline and the stress score of the
  audio pipeline.
\<close>

definition detectionTick :: "real \<Rightarrow> real \<Rightarrow> real \<Rightarrow> dashboard \<Rightarrow> dashboard" where
  "detectionTick gesture stress motion s =
     (let risk = calculateRisk gesture stress motion;
          s1 = s\<lparr>riskScore := risk, riskLevel := getRiskLevel risk\<rparr>
      in if risk > 0.75 then
           (case highRiskTimerRef s1 of
              None \<Rightarrow> s1\<lparr>highRiskTimerRef := Some (nextHandle s1),
                          pendingTimeouts := pendingTimeouts s1 @ [nextHandle s1],
                          nextHandle := Suc (nextHandle s1)\<rparr>
            | Some h \<Rightarrow> s1)
         else
           (case highRiskTimerRef s1 of
              None \<Rightarrow> s1
            | Some h \<Rightarrow> (clearTimeout (Some h) s1)\<lparr>highRiskTimerRef := None\<rparr>))"

text \<open>
  The protection toggle: the effect's cleanup of the previous run, then its body for the
  new value of \<^verbatim>\<open>isProtectionOn\<close>.
\<close>

definition toggleProtection :: "dashboard \<Rightarrow> dashboard" where
  "toggleProtection s =
     (let s1 = clearTimeout (highRiskTimerRef s) (clearDetection s)
      in if \<not> isProtectionOn s then
           s1\<lparr>isProtectionOn := True,
              detectionIntervalRef := Some (nextHandle s1),
              detectionRunning := True,
              nextHandle := Suc (nextHandle s1)\<rparr>
         else
           (clearTimeout (highRiskTimerRef s1) (clearDetection s1))
             \<lparr>isProtectionOn := False, highRiskTimerRef := None, riskScore := 0,
              riskLevel := Safe\<rparr>)"

text \<open>
  What can happen to the component: a click on the toggle, a run of the detection loop,
  the timer with a given handle firing, the interval with a given handle firing, the
  location lookup of a pending call settling, a click on Cancel, a click on Manual Alert.
  A step is \<open>None\<close> when the event cannot occur in the state: a timer callback runs only
  while its handle is pending or live, the detection loop only while its interval is
  live, the Cancel button exists only while the pre-alert is shown, and an unmounted
  component has no buttons. It is also \<open>None\<close> for the callback of a countdown interval
  that outlives the unmounted component, which the model does not follow.
\<close>

datatype event =
    ToggleProtection
  | DetectionTick real real real
  | HighRiskTimeout nat
  | CountdownTick nat stored_contacts
  | LookupSettles nat settle_env
  | CancelAlert
  | ManualPanic

definition dashboard_step :: "event \<Rightarrow> dashboard \<Rightarrow> dashboard option" where
  "dashboard_step e s =
     (case e of
        ToggleProtection \<Rightarrow> if navigated s then None else Some (toggleProtection s)
      | DetectionTick g st m \<Rightarrow>
          if detectionRunning s \<and> \<not> navigated s then Some (detectionTick g st m s) else None
      | HighRiskTimeout h \<Rightarrow>
          if h \<in> set (pendingTimeouts s) \<and> \<not> navigated s
          then Some (highRiskTimeout (s\<lparr>pendingTimeouts := removeAll h (pendingTimeouts s)\<rparr>))
          else None
      | CountdownTick h stored \<Rightarrow>
          if h \<in> set (countdownIntervals s) \<and> \<not> navigated s
          then Some (countdownTick stored s) else None
      | LookupSettles k env \<Rightarrow>
          if k < length (pendingLookups s) then Some (handleEmergency_resumed k env s) else None
      | CancelAlert \<Rightarrow>
          if showPreAlert s \<and> \<not> navigated s then Some (cancelAlert s) else None
      | ManualPanic \<Rightarrow> if navigated s then None else Some (handleManualPanic s))"

fun dashboard_run :: "event list \<Rightarrow> dashboard \<Rightarrow> dashboard option" where
  "dashboard_run [] s = Some s"
| "dashboard_run (e # evs) s =
     (case dashboard_step e s of None \<Rightarrow> None | Some s' \<Rightarrow> dashboard_run evs s')"

text \<open>Values for the examples: a contact, a failed and a successful lookup.\<close>

definition asha :: contact where
  "asha = \<lparr>contact_name = ''Asha'', contact_phone = ''100''\<rparr>"

definition lookup_failed :: settle_env where
  "lookup_failed = \<lparr>se_location = None, se_time = 0, se_setItem_ok = True\<rparr>"

definition lookup_found :: settle_env where
  "lookup_found = \<lparr>se_location = Some \<lparr>lat = 12, lng = 77\<rparr>, se_time = 0,
     se_setItem_ok = True\<rparr>"

section \<open>Theorems\<close>

subsection \<open>Risk fusion\<close>

text \<open>
  C3. For every gesture score in \<open>{0, 1}\<close> and all stress and motion scores in \<open>[0, 1]\<close>,
  \<open>calculateRisk\<close> returns the clamp to \<open>[0, 1]\<close> of
  \<open>gesture * 0.5 + stress * 0.3 + motion * 0.2\<close>; the result lies in \<open>[0, 1]\<close>, and it does
  not decrease when one of the three inputs grows and the other two stay as they are.
\<close>

theorem calculateRisk_clamped_monotone:
  assumes "g = 0 \<or> g = 1" and "g' = 0 \<or> g' = 1"
    and "0 \<le> s" and "s \<le> 1" and "0 \<le> s'" and "s' \<le> 1"
    and "0 \<le> m" and "m \<le> 1" and "0 \<le> m'" and "m' \<le> 1"
  shows "calculateRisk g s m = clamp_spec (g * 0.5 + s * 0.3 + m * 0.2) 0 1
    \<and> 0 \<le> calculateRisk g s m \<and> calculateRisk g s m \<le> 1
    \<and> (g \<le> g' \<longrightarrow> calculateRisk g s m \<le> calculateRisk g' s m)
    \<and> (s \<le> s' \<longrightarrow> calculateRisk g s m \<le> calculateRisk g s' m)
    \<and> (m \<le> m' \<longrightarrow> calculateRisk g s m \<le> calculateRisk g s m')"
proof -
  have clamp: "calculateRisk g s m = clamp_spec (g * 0.5 + s * 0.3 + m * 0.2) 0 1"
    by (simp add: calculateRisk_def clamp_spec_def Let_def min_def max_def)
  have range: "0 \<le> calculateRisk g s m \<and> calculateRisk g s m \<le> 1"
    by (simp add: calculateRisk_def Let_def min_def max_def)
  have mono: "a \<le> b \<Longrightarrow> min (max a 0) 1 \<le> min (max b 0) (1::real)" for a b
    by (simp add: min_def max_def)
  have mg: "g \<le> g' \<longrightarrow> calculateRisk g s m \<le> calculateRisk g' s m"
    unfolding calculateRisk_def Let_def by (intro impI mono) simp
  have ms: "s \<le> s' \<longrightarrow> calculateRisk g s m \<le> calculateRisk g s' m"
    unfolding calculateRisk_def Let_def by (intro impI mono) simp
  have mm: "m \<le> m' \<longrightarrow> calculateRisk g s m \<le> calculateRisk g s m'"
    unfolding calculateRisk_def Let_def by (intro impI mono) simp
  from clamp range mg ms mm show ?thesis by blast
qed

theorem calculateRisk_clamped_monotone_witness:
  "calculateRisk 0 (1/2) (1/4) = 1/5
    \<and> calculateRisk 0 (1/2) (1/4) \<le> calculateRisk 1 (1/2) (1/4)
    \<and> calculateRisk 0 (1/2) (1/4) \<le> calculateRisk 0 1 (1/4)
    \<and> calculateRisk 0 (1/2) (1/4) \<le> calculateRisk 0 (1/2) 1"
  using calculateRisk_clamped_monotone [of 0 1 "1/2" 1 "1/4" 1]
  by (simp add: clamp_spec_def)

subsection \<open>Spike limiter\<close>

text \<open>
  C4. One step of the spike limiter: when the new raw score exceeds the stored previous
  score by more than 0.15 the returned score is the previous score plus 0.15 (previous
  0.2 and raw 0.9 give at most 0.35); a score that does not exceed the previous one by
  more than 0.15, in particular every lower score, is returned unchanged (previous 0.9
  and raw 0.1 give 0.1); and the stored previous score becomes the returned value in
  every case.
\<close>

theorem applySpikeLimiter_step:
  "(newScore - prev > 0.15 \<longrightarrow> fst (applySpikeLimiter newScore prev) = prev + 0.15)
    \<and> (newScore - prev \<le> 0.15 \<longrightarrow> fst (applySpikeLimiter newScore prev) = newScore)
    \<and> (newScore \<le> prev \<longrightarrow> fst (applySpikeLimiter newScore prev) = newScore)
    \<and> snd (applySpikeLimiter newScore prev) = fst (applySpikeLimiter newScore prev)
    \<and> fst (applySpikeLimiter 0.9 0.2) \<le> 0.35
    \<and> fst (applySpikeLimiter 0.1 0.9) = 0.1"
proof -
  have up: "newScore - prev > 0.15 \<longrightarrow> fst (applySpikeLimiter newScore prev) = prev + 0.15"
    by (simp add: applySpikeLimiter_def SPIKE_LIMIT_def Let_def)
  have keep: "newScore - prev \<le> 0.15 \<longrightarrow> fst (applySpikeLimiter newScore prev) = newScore"
    by (simp add: applySpikeLimiter_def SPIKE_LIMIT_def Let_def)
  have down: "newScore \<le> prev \<longrightarrow> fst (applySpikeLimiter newScore prev) = newScore"
    using keep by simp
  have stored: "snd (applySpikeLimiter newScore prev) = fst (applySpikeLimiter newScore prev)"
    by (simp add: applySpikeLimiter_def Let_def)
  have ex1: "fst (applySpikeLimiter 0.9 0.2) \<le> 0.35"
    by (simp add: applySpikeLimiter_def SPIKE_LIMIT_def Let_def)
  have ex2: "fst (applySpikeLimiter 0.1 0.9) = 0.1"
    by (simp add: applySpikeLimiter_def SPIKE_LIMIT_def Let_def)
  from up keep down stored ex1 ex2 show ?thesis by blast
qed

theorem applySpikeLimiter_step_witness:
  "(0.9::real) - 0.2 > 0.15 \<and> applySpikeLimiter 0.9 0.2 = (0.35, 0.35)
    \<and> (0.1::real) \<le> 0.9 \<and> applySpikeLimiter 0.1 0.9 = (0.1, 0.1)"
  using applySpikeLimiter_step [of "0.9" "0.2"] applySpikeLimiter_step [of "0.1" "0.9"]
  by (simp add: prod_eq_iff)

subsection \<open>Fist confidence\<close>

lemma curled_tips_le: "curled_tips lms \<le> 4"
  unfolding curled_tips_def by (rule order_trans [OF length_filter_le]) simp

lemma computeFistConfidence_count:
  assumes "length lms = 21"
  shows "computeFistConfidence lms = Inr (real (curled_tips lms) / 4)"
  using assms
  by (simp add: computeFistConfidence_def PALM_INDICES_def FINGERTIP_INDICES_def
      FIST_THRESHOLD_def curled_tips_def tip_curled_def palm_center_def Let_def)

text \<open>
  C10. For every set of 21 landmarks the fist confidence is the number of the four
  fingertips 8, 12, 16 and 20 that lie within 0.12 of the palm centre, divided by 4. It is
  therefore one of 0, 0.25, 0.5, 0.75 and 1, and it is above 0.6, the test for "currently
  a fist", exactly when at least three of the four fingertips are within that distance.
\<close>

theorem fistConfidence_values:
  assumes "length lms = 21"
  shows "\<exists>c. computeFistConfidence lms = Inr c
     \<and> c = real (curled_tips lms) / 4
     \<and> (c = 0 \<or> c = 0.25 \<or> c = 0.5 \<or> c = 0.75 \<or> c = 1)
     \<and> (c > 0.6 \<longleftrightarrow> 3 \<le> curled_tips lms)"
proof -
  let ?n = "curled_tips lms"
  have "?n \<le> 4" by (rule curled_tips_le)
  then have cases: "?n = 0 \<or> ?n = 1 \<or> ?n = 2 \<or> ?n = 3 \<or> ?n = 4" by arith
  have v: "real ?n / 4 = 0 \<or> real ?n / 4 = 0.25 \<or> real ?n / 4 = 0.5
      \<or> real ?n / 4 = 0.75 \<or> real ?n / 4 = 1"
    using cases by auto
  have f: "(real ?n / 4 > 0.6) = (3 \<le> ?n)"
    using cases by auto
  from computeFistConfidence_count [OF assms] v f show ?thesis by blast
qed

theorem fistConfidence_values_witness:
  "length fist_hand = 21 \<and> computeFistConfidence fist_hand = Inr 1 \<and> curled_tips fist_hand = 4"
  using fistConfidence_values [of fist_hand]
  by (simp add: fist_hand_def curled_tips_def tip_curled_def palm_center_def)

subsection \<open>Gesture hold\<close>















subsection \<open>Feature extraction on an empty frame\<close>

lemma takeWhile_never: "takeWhile (\<lambda>x. False) xs = []"
  by (cases xs) simp_all

text \<open>
  C6. The claim is that feature extraction returns the all-zero feature set for a
  zero-length frame. The code does so for the MFCC vector, the pitch and the spectral
  centroid; its RMS and its zero-crossing rate divide 0 by the frame length 0 and are
  not-a-number, whatever the Meyda library returns, so the feature set is not the all-zero
  one.
\<close>

theorem zero_length_frame_features:
  "fs_rms (extractAllFeatures [] sampleRate numMFCC mm mc) = NaN
   \<and> fs_zcr (extractAllFeatures [] sampleRate numMFCC mm mc) = NaN
   \<and> fs_pitch (extractAllFeatures [] sampleRate numMFCC mm mc) = 0
   \<and> extractAllFeatures [] sampleRate numMFCC mm mc \<noteq> zero_features numMFCC
   \<and> extractAllFeatures [] 16000 40 None None
       = \<lparr>fs_mfcc = replicate 40 0, fs_pitch = 0, fs_rms = NaN, fs_zcr = NaN,
          fs_spectralCentroid = 0\<rparr>"
  by (simp add: extractAllFeatures_def extractRMS_def extractZCR_def extractPitch_def
      extractMFCC_def extractSpectralCentroid_def zero_features_def Let_def
      takeWhile_never)

subsection \<open>Noise compensation\<close>

lemma loud_frame_scores:
  "featureScores loud_frame (Some calm_baseline)
     = \<lparr>pitchScore = 1, rmsScore = 0, mfccScore = 0, centroidScore = 0, zcrScore = 0\<rparr>"
  by (simp add: featureScores_def loud_frame_def calm_baseline_def calculateStats_def
      calculateMFCCTemporalVariance_def Let_def)

lemma loud_frame_not_gated: "\<not> gated_out (Some loud_frame)"
  by (simp add: gated_out_def loud_frame_def calculateStats_def Let_def)

lemma tense_frames_scores:
  "featureScores tense_frames (Some calm_baseline)
     = \<lparr>pitchScore = 1, rmsScore = 1/2, mfccScore = 1/10, centroidScore = 1/2, zcrScore = 1\<rparr>"
  by (simp add: featureScores_def tense_frames_def calm_baseline_def calculateStats_def
      calculateMFCCTemporalVariance_def Let_def power2_eq_square)

lemma tense_frames_not_gated: "\<not> gated_out (Some tense_frames)"
  by (simp add: gated_out_def tense_frames_def calculateStats_def Let_def)

text \<open>
  C7. When the noise floor is above the high-noise threshold 0.05, the RMS weight of the
  stress score is below its default 0.25 and the pitch weight above its default 0.30; the
  two shifts add up to zero, the RMS weight having lost 20% of its value, 0.05, to the
  pitch weight (0.20 and 0.35), and the other three weights are the defaults. At or below
  the threshold the weights are the defaults 0.30, 0.25, 0.20, 0.15 and 0.10. These
  weights are the ones the score is computed with: on an input that passes the gates the
  result is the spike-limited clamp of the pitch score times the pitch weight, plus the
  RMS score times the RMS weight, plus the MFCC, centroid and ZCR scores times 0.20, 0.15
  and 0.10.
\<close>

theorem noise_compensation_weights:
  "(n > 0.05 \<longrightarrow>
        wRMS (noiseWeights n) < 0.25 \<and> wPitch (noiseWeights n) > 0.30
      \<and> (wRMS (noiseWeights n) - 0.25) + (wPitch (noiseWeights n) - 0.30) = 0
      \<and> 0.25 - wRMS (noiseWeights n) = 0.25 * 0.20
      \<and> wRMS (noiseWeights n) = 0.20 \<and> wPitch (noiseWeights n) = 0.35
      \<and> wMFCC (noiseWeights n) = 0.20 \<and> wCentroid (noiseWeights n) = 0.15
      \<and> wZCR (noiseWeights n) = 0.10)
   \<and> (n \<le> 0.05 \<longrightarrow>
        noiseWeights n
          = \<lparr>wPitch = 0.30, wRMS = 0.25, wMFCC = 0.20, wCentroid = 0.15, wZCR = 0.10\<rparr>)
   \<and> (\<not> gated_out (Some fm) \<longrightarrow>
        computeStressScore (Some fm) bl n prev
          = applySpikeLimiter
              (max 0 (min 1 (weightedScore (featureScores fm bl) (noiseWeights n)))) prev)
   \<and> (\<not> gated_out (Some fm) \<longrightarrow>
        computeStressScore (Some fm) bl n prev
          = applySpikeLimiter
              (max 0 (min 1
                 (pitchScore (featureScores fm bl) * (if n > 0.05 then 0.35 else 0.30)
                  + rmsScore (featureScores fm bl) * (if n > 0.05 then 0.20 else 0.25)
                  + mfccScore (featureScores fm bl) * 0.20
                  + centroidScore (featureScores fm bl) * 0.15
                  + zcrScore (featureScores fm bl) * 0.10))) prev)"
proof -
  have above: "n > 0.05 \<longrightarrow>
        wRMS (noiseWeights n) < 0.25 \<and> wPitch (noiseWeights n) > 0.30
      \<and> (wRMS (noiseWeights n) - 0.25) + (wPitch (noiseWeights n) - 0.30) = 0
      \<and> 0.25 - wRMS (noiseWeights n) = 0.25 * 0.20
      \<and> wRMS (noiseWeights n) = 0.20 \<and> wPitch (noiseWeights n) = 0.35
      \<and> wMFCC (noiseWeights n) = 0.20 \<and> wCentroid (noiseWeights n) = 0.15
      \<and> wZCR (noiseWeights n) = 0.10"
    by (simp add: noiseWeights_def NOISE_HIGH_THRESHOLD_def Let_def)
  have below: "n \<le> 0.05 \<longrightarrow>
        noiseWeights n
          = \<lparr>wPitch = 0.30, wRMS = 0.25, wMFCC = 0.20, wCentroid = 0.15, wZCR = 0.10\<rparr>"
    by (simp add: noiseWeights_def NOISE_HIGH_THRESHOLD_def Let_def)
  have used: "\<not> gated_out (Some fm) \<longrightarrow>
        computeStressScore (Some fm) bl n prev
          = applySpikeLimiter
              (max 0 (min 1 (weightedScore (featureScores fm bl) (noiseWeights n)))) prev"
    by (simp add: computeStressScore_def gated_out_def VAD_MIN_RMS_def Let_def)
  have sum: "weightedScore sc (noiseWeights n)
      = pitchScore sc * (if n > 0.05 then 0.35 else 0.30)
        + rmsScore sc * (if n > 0.05 then 0.20 else 0.25)
        + mfccScore sc * 0.20 + centroidScore sc * 0.15 + zcrScore sc * 0.10" for sc
    by (simp add: weightedScore_def noiseWeights_def NOISE_HIGH_THRESHOLD_def Let_def)
  have applied: "\<not> gated_out (Some fm) \<longrightarrow>
        computeStressScore (Some fm) bl n prev
          = applySpikeLimiter
              (max 0 (min 1
                 (pitchScore (featureScores fm bl) * (if n > 0.05 then 0.35 else 0.30)
                  + rmsScore (featureScores fm bl) * (if n > 0.05 then 0.20 else 0.25)
                  + mfccScore (featureScores fm bl) * 0.20
                  + centroidScore (featureScores fm bl) * 0.15
                  + zcrScore (featureScores fm bl) * 0.10))) prev"
    using used unfolding sum [of "featureScores fm bl"] .
  from above below used applied show ?thesis by blast
qed

theorem noise_compensation_weights_witness:
  "(0.06::real) > 0.05
   \<and> noiseWeights 0.06
        = \<lparr>wPitch = 0.35, wRMS = 0.20, wMFCC = 0.20, wCentroid = 0.15, wZCR = 0.10\<rparr>
   \<and> (0.05::real) \<le> 0.05
   \<and> noiseWeights 0.05
        = \<lparr>wPitch = 0.30, wRMS = 0.25, wMFCC = 0.20, wCentroid = 0.15, wZCR = 0.10\<rparr>
   \<and> \<not> gated_out (Some loud_frame)
   \<and> computeStressScore (Some loud_frame) (Some calm_baseline) 0.06 1 = (0.35, 0.35)
   \<and> computeStressScore (Some loud_frame) (Some calm_baseline) 0.05 1 = (0.30, 0.30)
   \<and> \<not> gated_out (Some tense_frames)
   \<and> computeStressScore (Some tense_frames) (Some calm_baseline) 0.06 1 = (0.645, 0.645)
   \<and> computeStressScore (Some tense_frames) (Some calm_baseline) 0.05 1 = (0.62, 0.62)"
  using noise_compensation_weights [of "0.06" loud_frame "Some calm_baseline" 1]
    noise_compensation_weights [of "0.05" loud_frame "Some calm_baseline" 1]
    noise_compensation_weights [of "0.06" tense_frames "Some calm_baseline" 1]
    noise_compensation_weights [of "0.05" tense_frames "Some calm_baseline" 1]
  by (simp add: loud_frame_not_gated loud_frame_scores tense_frames_not_gated
      tense_frames_scores weightedScore_def applySpikeLimiter_def SPIKE_LIMIT_def Let_def)

subsection \<open>The gate and the spike limiter\<close>

lemma applySpikeLimiter_unit:
  assumes "0 \<le> v" "v \<le> 1" "0 \<le> p" "p \<le> 1"
  shows "0 \<le> fst (applySpikeLimiter v p) \<and> fst (applySpikeLimiter v p) \<le> 1
     \<and> snd (applySpikeLimiter v p) = fst (applySpikeLimiter v p)"
  using assms by (simp add: applySpikeLimiter_def SPIKE_LIMIT_def Let_def)

lemma computeStressScore_unit:
  assumes "0 \<le> p" "p \<le> 1"
  shows "0 \<le> snd (computeStressScore fm bl n p) \<and> snd (computeStressScore fm bl n p) \<le> 1"
proof -
  have z: "0 \<le> snd (applySpikeLimiter 0 p) \<and> snd (applySpikeLimiter 0 p) \<le> 1"
    using applySpikeLimiter_unit [of 0 p] assms by simp
  have c: "0 \<le> snd (applySpikeLimiter (max 0 (min 1 r)) p)
      \<and> snd (applySpikeLimiter (max 0 (min 1 r)) p) \<le> 1" for r
    using applySpikeLimiter_unit [of "max 0 (min 1 r)" p] assms by simp
  show ?thesis
    using z c by (simp add: computeStressScore_def Let_def split: option.splits)
qed

lemma stress_calls_snoc:
  "stress_calls (calls @ [(fm, bl, n)]) p = snd (computeStressScore fm bl n (stress_calls calls p))"
  by (simp add: stress_calls_def)

text \<open>The stored previous score stays in \<open>[0, 1]\<close> over every sequence of calls.\<close>

lemma stress_calls_unit:
  "0 \<le> stress_calls calls resetStressState \<and> stress_calls calls resetStressState \<le> 1"
proof (induction calls rule: rev_induct)
  case Nil
  show ?case by (simp add: stress_calls_def resetStressState_def)
next
  case (snoc c calls)
  obtain fm bl n where c: "c = (fm, bl, n)" by (cases c)
  from snoc show ?case
    unfolding c stress_calls_snoc by (intro computeStressScore_unit) simp_all
qed

lemma gated_call:
  assumes "gated_out fm" "0 \<le> p"
  shows "computeStressScore fm bl n p = (0, 0)"
  using assms
  by (auto simp: computeStressScore_def gated_out_def VAD_MIN_RMS_def applySpikeLimiter_def
      SPIKE_LIMIT_def Let_def split: option.splits)

lemma call_after_zero: "fst (computeStressScore fm bl n 0) \<le> 0.15"
proof -
  have "fst (applySpikeLimiter v 0) \<le> 0.15" for v
    by (simp add: applySpikeLimiter_def SPIKE_LIMIT_def Let_def)
  then show ?thesis
    by (simp add: computeStressScore_def Let_def split: option.splits)
qed

text \<open>
  C9. After any sequence of calls since the last reset, a call of \<open>computeStressScore\<close>
  whose input is gated out (no feature matrix, an empty one, or a mean RMS below 0.01)
  returns 0 and leaves 0 in the spike limiter's stored previous score; the call that
  follows it returns at most 0.15, whatever its matrix, baseline and noise floor are.
\<close>

theorem gate_resets_spike_limiter:
  assumes "gated_out fm"
  shows "computeStressScore fm bl n (stress_calls calls resetStressState) = (0, 0)
    \<and> fst (computeStressScore fm' bl' n'
             (snd (computeStressScore fm bl n (stress_calls calls resetStressState)))) \<le> 0.15"
proof -
  have p: "0 \<le> stress_calls calls resetStressState"
    using stress_calls_unit [of calls] by simp
  have g: "computeStressScore fm bl n (stress_calls calls resetStressState) = (0, 0)"
    by (rule gated_call [OF assms p])
  show ?thesis unfolding g using call_after_zero [of fm' bl' n'] by simp
qed

theorem gate_resets_spike_limiter_witness:
  "gated_out None
   \<and> computeStressScore None None 0
        (stress_calls [(Some loud_frame, Some calm_baseline, 0)] resetStressState) = (0, 0)
   \<and> fst (computeStressScore (Some loud_frame) (Some calm_baseline) 0
        (snd (computeStressScore None None 0
          (stress_calls [(Some loud_frame, Some calm_baseline, 0)] resetStressState)))) \<le> 0.15"
proof -
  have g: "gated_out None" by (simp add: gated_out_def)
  from g gate_resets_spike_limiter [OF g, of None 0 "[(Some loud_frame, Some calm_baseline, 0)]"
      "Some loud_frame" "Some calm_baseline" 0]
  show ?thesis by blast
qed

subsection \<open>Calibration gating\<close>

lemma updateStressScore_zero:
  "(case fst (updateStressScore 0 s) of
      None \<Rightarrow> True
    | Some u \<Rightarrow> upd_stressScore u = 0 \<and> upd_audioRiskWeight u = 0)
   \<and> currentStressScore (snd (updateStressScore 0 s)) = 0
   \<and> (hasCallback s \<longrightarrow> (\<exists>u. fst (updateStressScore 0 s) = Some u))"
  by (simp add: updateStressScore_def emitUpdate_def calculateAudioRiskWeight_def Let_def)

text \<open>
  C5. In every processing step that starts while the pipeline is calibrating, the update
  that the step emits, if it emits one, carries the stress score 0, and the stored
  current score is then 0 as well; in every case the stored score is 0 or what it was
  before the step. This holds for every input: the buffer, the voice verdict, the window and the
  feature matrix are arbitrary. A running pipeline with a callback does emit the score 0
  on every voiced input with a full window.
\<close>

theorem calibration_forces_zero:
  assumes "isCalibrating s"
  shows "(case fst (processAudioFrame inp s) of
            None \<Rightarrow> True
          | Some u \<Rightarrow> upd_stressScore u = 0
               \<and> currentStressScore (snd (processAudioFrame inp s)) = 0)
    \<and> (currentStressScore (snd (processAudioFrame inp s)) = 0
         \<or> currentStressScore (snd (processAudioFrame inp s)) = currentStressScore s)
    \<and> (isRunning s \<and> hasAnalyser s \<and> hasCallback s \<and> ai_hasVoice inp
          \<and> 1000 \<le> ai_windowLength inp
        \<longrightarrow> (\<exists>u. fst (processAudioFrame inp s) = Some u \<and> upd_stressScore u = 0))"
  using assms
  by (simp add: processAudioFrame_def updateStressScore_def emitUpdate_def Let_def)

theorem calibration_forces_zero_witness:
  "isCalibrating (snd (pipeline_start True 0 new_pipeline))
   \<and> (\<exists>u. fst (processAudioFrame (voiced_input 1000) (snd (pipeline_start True 0 new_pipeline)))
            = Some u \<and> upd_stressScore u = 0)
   \<and> currentStressScore
        (snd (processAudioFrame (voiced_input 1000) (snd (pipeline_start True 0 new_pipeline)))) = 0"
proof -
  have c: "isCalibrating (snd (pipeline_start True 0 new_pipeline))"
    by (simp add: pipeline_start_def new_pipeline_def Let_def)
  have r: "isRunning (snd (pipeline_start True 0 new_pipeline))
      \<and> hasAnalyser (snd (pipeline_start True 0 new_pipeline))
      \<and> hasCallback (snd (pipeline_start True 0 new_pipeline))
      \<and> ai_hasVoice (voiced_input 1000) \<and> 1000 \<le> ai_windowLength (voiced_input 1000)"
    by (simp add: pipeline_start_def new_pipeline_def voiced_input_def Let_def)
  from c r calibration_forces_zero [OF c, of "voiced_input 1000"]
  show ?thesis by (auto split: option.splits)
qed

subsection \<open>The countdown and the emergency trigger\<close>

text \<open>
  The record of a resumed call carries the location of the lookup or, when the lookup was
  rejected, the mock location: the second part of \<^verbatim>\<open>handleEmergency\<close> never waits for a
  location that is missing.
\<close>

lemma resumed_location_fallback:
  assumes "se_setItem_ok env"
  shows "emergencies (handleEmergency_resumed k env s)
     = emergencies s @
         [\<lparr>ed_timestamp = se_time env,
           ed_location = (case se_location env of Some l \<Rightarrow> l | None \<Rightarrow> getMockLocation),
           ed_contacts = pendingLookups s ! k\<rparr>]"
  using assms
  by (simp add: handleEmergency_resumed_def triggerEmergency_def unmountDashboard_def
      clearTimeout_def clearDetection_def Let_def split: option.splits)

text \<open>
  One countdown, started by Manual Alert and not cancelled: the fifth tick clears the
  interval and calls \<^verbatim>\<open>handleEmergency\<close> once, and the rejected lookup gives one record
  with the mock location.
\<close>

lemma single_countdown_example:
  "map_option pendingLookups (dashboard_run
       [ManualPanic, CountdownTick 1 (Json [asha]), CountdownTick 1 (Json [asha]),
        CountdownTick 1 (Json [asha]), CountdownTick 1 (Json [asha])] initial_dashboard)
     = Some []
   \<and> map_option countdownIntervals (dashboard_run
       [ManualPanic, CountdownTick 1 (Json [asha]), CountdownTick 1 (Json [asha]),
        CountdownTick 1 (Json [asha]), CountdownTick 1 (Json [asha]),
        CountdownTick 1 (Json [asha])] initial_dashboard)
     = Some []
   \<and> map_option emergencies (dashboard_run
       [ManualPanic, CountdownTick 1 (Json [asha]), CountdownTick 1 (Json [asha]),
        CountdownTick 1 (Json [asha]), CountdownTick 1 (Json [asha]),
        CountdownTick 1 (Json [asha]), LookupSettles 0 lookup_failed] initial_dashboard)
     = Some [\<lparr>ed_timestamp = 0, ed_location = getMockLocation, ed_contacts = [asha]\<rparr>]"
  by (simp add: dashboard_step_def handleManualPanic_def startCountdown_def
      countdownTick_def handleEmergency_def handleEmergency_resumed_def triggerEmergency_def
      unmountDashboard_def clearInterval_def clearTimeout_def clearDetection_def
      initial_dashboard_def lookup_failed_def Let_def)

text \<open>
  C1. The claim is that a countdown that reaches 0 without a cancellation gives exactly
  one emergency record, whose location is the mock location when the lookup fails. The
  location is as claimed. The number is not, once a countdown is started while another
  one runs: \<^verbatim>\<open>startCountdown\<close> leaves the earlier interval live and out of the ref's
  reach. After Manual Alert twice the two intervals count 5 down to 1 between them; the
  next tick of the first interval clears the second one and calls \<^verbatim>\<open>handleEmergency\<close>,
  and one second later, the lookup of that call still pending, the first interval ticks
  again, finds the countdown at 0 and calls \<^verbatim>\<open>handleEmergency\<close> a second time. Both
  lookups settle and two records are stored; nobody cancelled.
\<close>

theorem double_start_triggers_twice:
  "map_option countdown (dashboard_run
       [ManualPanic, ManualPanic,
        CountdownTick 1 (Json [asha]), CountdownTick 2 (Json [asha]),
        CountdownTick 1 (Json [asha]), CountdownTick 2 (Json [asha]),
        CountdownTick 1 (Json [asha])] initial_dashboard) = Some 0
   \<and> map_option pendingLookups (dashboard_run
       [ManualPanic, ManualPanic,
        CountdownTick 1 (Json [asha]), CountdownTick 2 (Json [asha]),
        CountdownTick 1 (Json [asha]), CountdownTick 2 (Json [asha]),
        CountdownTick 1 (Json [asha])] initial_dashboard) = Some [[asha]]
   \<and> map_option countdownIntervals (dashboard_run
       [ManualPanic, ManualPanic,
        CountdownTick 1 (Json [asha]), CountdownTick 2 (Json [asha]),
        CountdownTick 1 (Json [asha]), CountdownTick 2 (Json [asha]),
        CountdownTick 1 (Json [asha])] initial_dashboard) = Some [1]
   \<and> map_option pendingLookups (dashboard_run
       [ManualPanic, ManualPanic,
        CountdownTick 1 (Json [asha]), CountdownTick 2 (Json [asha]),
        CountdownTick 1 (Json [asha]), CountdownTick 2 (Json [asha]),
        CountdownTick 1 (Json [asha]), CountdownTick 1 (Json [asha])] initial_dashboard)
      = Some [[asha], [asha]]
   \<and> map_option emergencies (dashboard_run
       [ManualPanic, ManualPanic,
        CountdownTick 1 (Json [asha]), CountdownTick 2 (Json [asha]),
        CountdownTick 1 (Json [asha]), CountdownTick 2 (Json [asha]),
        CountdownTick 1 (Json [asha]), CountdownTick 1 (Json [asha]),
        LookupSettles 0 lookup_failed, LookupSettles 0 lookup_failed] initial_dashboard)
      = Some [\<lparr>ed_timestamp = 0, ed_location = getMockLocation, ed_contacts = [asha]\<rparr>,
              \<lparr>ed_timestamp = 0, ed_location = getMockLocation, ed_contacts = [asha]\<rparr>]"
  by (simp add: dashboard_step_def handleManualPanic_def startCountdown_def
      countdownTick_def handleEmergency_def handleEmergency_resumed_def triggerEmergency_def
      unmountDashboard_def clearInterval_def clearTimeout_def clearDetection_def
      initial_dashboard_def lookup_failed_def Let_def)

subsection \<open>Cancellation\<close>

text \<open>
  With one live countdown interval, the one the ref holds, Cancel hides the pre-alert,
  resets the countdown to 5 and clears the interval and the sustain timer; no call of
  \<^verbatim>\<open>handleEmergency\<close> and no record comes of it.
\<close>

lemma cancel_single_countdown:
  assumes "countdownIntervals s = [h]" "countdownIntervalRef s = Some h"
  shows "showPreAlert (cancelAlert s) = False
    \<and> countdown (cancelAlert s) = 5
    \<and> countdownIntervals (cancelAlert s) = []
    \<and> highRiskTimerRef (cancelAlert s) = None
    \<and> pendingLookups (cancelAlert s) = pendingLookups s
    \<and> emergencies (cancelAlert s) = emergencies s"
  using assms
  by (simp add: cancelAlert_def clearInterval_def clearTimeout_def Let_def
      split: option.splits)

text \<open>
  C2. The claim is that a cancellation during the countdown returns the machine to Idle
  and that no emergency record is emitted from that pre-alert. \<^verbatim>\<open>startCountdown\<close> does
  not clear the interval that the ref already holds, so a second start during a pre-alert
  (Manual Alert pressed twice, or Manual Alert followed by the sustain timer) leaves the
  first interval live and out of the ref's reach. Cancel then clears only the second one:
  the pre-alert is hidden, the countdown is back at 5, and on its fifth tick after that
  the first interval calls \<^verbatim>\<open>handleEmergency\<close>, whose record is stored as soon as the
  lookup settles, although the pre-alert was cancelled.
\<close>

theorem cancel_with_leaked_interval:
  "map_option showPreAlert
      (dashboard_run [ManualPanic, ManualPanic, CancelAlert] initial_dashboard) = Some False
   \<and> map_option countdown
      (dashboard_run [ManualPanic, ManualPanic, CancelAlert] initial_dashboard) = Some 5
   \<and> map_option countdownIntervals
      (dashboard_run [ManualPanic, ManualPanic, CancelAlert] initial_dashboard) = Some [1]
   \<and> map_option emergencies
      (dashboard_run [ManualPanic, ManualPanic, CancelAlert] initial_dashboard) = Some []
   \<and> map_option pendingLookups (dashboard_run
       [ManualPanic, ManualPanic, CancelAlert,
        CountdownTick 1 Absent, CountdownTick 1 Absent, CountdownTick 1 Absent,
        CountdownTick 1 Absent, CountdownTick 1 Absent]
       initial_dashboard) = Some [[]]
   \<and> map_option emergencies (dashboard_run
       [ManualPanic, ManualPanic, CancelAlert,
        CountdownTick 1 Absent, CountdownTick 1 Absent, CountdownTick 1 Absent,
        CountdownTick 1 Absent, CountdownTick 1 Absent, LookupSettles 0 lookup_found]
       initial_dashboard)
      = Some [\<lparr>ed_timestamp = 0, ed_location = \<lparr>lat = 12, lng = 77\<rparr>, ed_contacts = []\<rparr>]
   \<and> map_option emergencies (dashboard_run
       [ToggleProtection, DetectionTick 1 (9/10) 0, ManualPanic, HighRiskTimeout 2, CancelAlert,
        CountdownTick 3 Absent, CountdownTick 3 Absent, CountdownTick 3 Absent,
        CountdownTick 3 Absent, CountdownTick 3 Absent, LookupSettles 0 lookup_found]
       initial_dashboard)
      = Some [\<lparr>ed_timestamp = 0, ed_location = \<lparr>lat = 12, lng = 77\<rparr>, ed_contacts = []\<rparr>]"
  by (simp add: dashboard_step_def toggleProtection_def clearDetection_def
      detectionTick_def calculateRisk_def getRiskLevel_def highRiskTimeout_def
      handleManualPanic_def startCountdown_def cancelAlert_def countdownTick_def
      handleEmergency_def handleEmergency_resumed_def triggerEmergency_def
      unmountDashboard_def clearInterval_def clearTimeout_def
      initial_dashboard_def lookup_found_def Let_def)

end
